theory Spec2Isabelle
  imports Main "HOL-Library.Word"
begin

section \<open>The chat client component, as a state machine\<close>

text \<open>
  The source is one React component, \<^verbatim>\<open>EnhancedChatAppComponent\<close>
  (\<^verbatim>\<open>src/components/enhanced-chat-app.tsx\<close>). Its \<^verbatim>\<open>useState\<close> cells and refs are
  the fields of one record; every socket handler and every UI callback is a function from
  the state to the next state. An exception that a handler lets escape is the value
  \<open>Inl\<close> of a sum type.
\<close>

subsection \<open>Strings\<close>

text \<open>A JavaScript string is a sequence of UTF-16 code units.\<close>

type_synonym js_string = "16 word list"

definition utf16 :: "string \<Rightarrow> js_string" where
  "utf16 s = map of_char s"

text \<open>
  \<^verbatim>\<open>String.prototype.trim\<close> strips the code units that ECMAScript calls WhiteSpace
  (TAB, VT, FF, ZWNBSP and the space separators) or LineTerminator (LF, CR, LS, PS) from
  both ends.
\<close>

definition isWhiteSpace :: "16 word \<Rightarrow> bool" where
  "isWhiteSpace c \<longleftrightarrow>
     c = 0x0009 \<or> c = 0x000A \<or> c = 0x000B \<or> c = 0x000C \<or> c = 0x000D \<or>
     c = 0x0020 \<or> c = 0x00A0 \<or> c = 0x1680 \<or> (0x2000 \<le> c \<and> c \<le> 0x200A) \<or>
     c = 0x2028 \<or> c = 0x2029 \<or> c = 0x202F \<or> c = 0x205F \<or> c = 0x3000 \<or>
     c = 0xFEFF"

definition trim :: "js_string \<Rightarrow> js_string" where
  "trim s = rev (dropWhile isWhiteSpace (rev (dropWhile isWhiteSpace s)))"

text \<open>\<^verbatim>\<open>s.includes(q)\<close>: \<open>q\<close> occurs in \<open>s\<close> as a contiguous run.\<close>

fun includes_str :: "js_string \<Rightarrow> js_string \<Rightarrow> bool" where
  "includes_str [] q = (q = [])"
| "includes_str (c # cs) q = (take (length q) (c # cs) = q \<or> includes_str cs q)"

subsection \<open>Data model\<close>

datatype MessageType = Text | Image | Video | File

datatype status = Sent | Delivered | Read

record user_info =
  name :: js_string
  image :: js_string

text \<open>
  The type \<^verbatim>\<open>Message\<close> declares no room id, yet the \<^verbatim>\<open>chat message\<close> handler reads
  \<^verbatim>\<open>msg.roomId\<close> from the wire object. The field is \<open>None\<close> where the object has none
  (JavaScript's \<^verbatim>\<open>undefined\<close>).
\<close>

record Message =
  id_msg :: js_string
  content :: js_string
  type :: MessageType
  createdAt :: js_string
  status :: status
  userId :: js_string
  user :: user_info
  roomId :: "js_string option"

record member =
  id_member :: js_string
  name_member :: js_string
  image_member :: js_string

record Room =
  id_room :: js_string
  name_room :: js_string
  users :: "member list"

record UserProfile =
  id_profile :: js_string
  name_profile :: js_string
  image_profile :: js_string
  status_profile :: js_string
  bio :: js_string

text \<open>What the component hands to \<^verbatim>\<open>socketRef.current.emit\<close>.\<close>

datatype emit =
  Emit_chat_message js_string js_string MessageType
| Emit_typing js_string bool

text \<open>
  The state. \<open>socket\<close> says that \<^verbatim>\<open>socketRef.current\<close> is not null. \<open>typingTimeout\<close>
  is the pending timer registered under \<^verbatim>\<open>typingTimeoutRef.current\<close>: the time in
  milliseconds at which it fires and the id of the room its callback captured. \<open>clock\<close>
  is the current time in milliseconds, and \<open>emitted\<close> lists the events emitted so far,
  oldest first, each with the time of its emission.
\<close>

record chat_state =
  rooms :: "Room list"
  selectedRoom :: "Room option"
  messages :: "Message list"
  newMessage :: js_string
  isSidebarOpen :: bool
  isTyping :: bool
  searchQuery :: js_string
  userProfile :: "UserProfile option"
  sessionUserId :: js_string
  socket :: bool
  typingTimeout :: "(nat \<times> js_string) option"
  clock :: nat
  emitted :: "(nat \<times> emit) list"

subsection \<open>The payload cipher\<close>

text \<open>
  Encryption and decryption are calls into the CryptoJS library, which is not part of
  the component. The library is a parameter of the model:
  \<open>AES_encrypt m k\<close> stands for \<^verbatim>\<open>CryptoJS.AES.encrypt(m, k).toString()\<close> (the salt the
  library draws is part of the function) and \<open>AES_decrypt_Utf8 c k\<close> for
  \<^verbatim>\<open>CryptoJS.AES.decrypt(c, k).toString(CryptoJS.enc.Utf8)\<close>. Either call returns a
  string or throws.
\<close>

datatype exn = Error string

record crypto_js =
  AES_encrypt :: "js_string \<Rightarrow> js_string \<Rightarrow> exn + js_string"
  AES_decrypt_Utf8 :: "js_string \<Rightarrow> js_string \<Rightarrow> exn + js_string"

text \<open>
  \<^verbatim>\<open>process.env.NEXT_PUBLIC_ENCRYPTION_KEY || 'default-secret-key'\<close>: the variable is
  \<open>None\<close> when unset, and the fallback also replaces the empty string.
\<close>

definition secretKey :: "js_string option \<Rightarrow> js_string" where
  "secretKey env =
     (case env of
        None \<Rightarrow> utf16 ''default-secret-key''
      | Some k \<Rightarrow> if k = [] then utf16 ''default-secret-key'' else k)"

definition encryptMessage ::
  "crypto_js \<Rightarrow> js_string option \<Rightarrow> js_string \<Rightarrow> exn + js_string" where
  "encryptMessage lib env message = AES_encrypt lib message (secretKey env)"

definition decryptMessage ::
  "crypto_js \<Rightarrow> js_string option \<Rightarrow> js_string \<Rightarrow> exn + js_string" where
  "decryptMessage lib env ciphertext = AES_decrypt_Utf8 lib ciphertext (secretKey env)"

subsection \<open>Inbound socket events\<close>

text \<open>
  \<^verbatim>\<open>selectedRoom?.id === roomId\<close> compares the selected room's id, \<^verbatim>\<open>undefined\<close> when
  no room is selected, with the id the event carries.
\<close>

definition roomIsSelected :: "chat_state \<Rightarrow> js_string option \<Rightarrow> bool" where
  "roomIsSelected s rid \<longleftrightarrow> map_option id_room (selectedRoom s) = rid"

text \<open>
  \<^verbatim>\<open>initialMessages.map(msg => ({...msg, content: decryptMessage(msg.content)}))\<close>,
  left to right; the first call that throws ends the whole map.
\<close>

fun decryptAll :: "(js_string \<Rightarrow> exn + js_string) \<Rightarrow> Message list \<Rightarrow> exn + Message list" where
  "decryptAll dec [] = Inr []"
| "decryptAll dec (msg # msgs) =
     (case dec (content msg) of
        Inl e \<Rightarrow> Inl e
      | Inr p \<Rightarrow>
          (case decryptAll dec msgs of
             Inl e \<Rightarrow> Inl e
           | Inr rest \<Rightarrow> Inr (msg\<lparr>content := p\<rparr> # rest)))"

definition on_initial_messages ::
  "crypto_js \<Rightarrow> js_string option \<Rightarrow> js_string option \<Rightarrow> Message list \<Rightarrow> chat_state
     \<Rightarrow> exn + chat_state" where
  "on_initial_messages lib env rid initialMessages s =
     (if roomIsSelected s rid then
        (case decryptAll (decryptMessage lib env) initialMessages of
           Inl e \<Rightarrow> Inl e
         | Inr ms \<Rightarrow> Inr (s\<lparr>messages := ms\<rparr>))
      else Inr s)"

definition on_chat_message ::
  "crypto_js \<Rightarrow> js_string option \<Rightarrow> Message \<Rightarrow> chat_state \<Rightarrow> exn + chat_state" where
  "on_chat_message lib env msg s =
     (if roomIsSelected s (roomId msg) then
        (case decryptMessage lib env (content msg) of
           Inl e \<Rightarrow> Inl e
         | Inr p \<Rightarrow> Inr (s\<lparr>messages := messages s @ [msg\<lparr>content := p\<rparr>]\<rparr>))
      else Inr s)"

definition on_user_typing :: "js_string \<Rightarrow> bool \<Rightarrow> chat_state \<Rightarrow> chat_state" where
  "on_user_typing uid flag s =
     (if uid \<noteq> sessionUserId s then s\<lparr>isTyping := flag\<rparr> else s)"

definition on_message_status_updated :: "js_string \<Rightarrow> status \<Rightarrow> chat_state \<Rightarrow> chat_state" where
  "on_message_status_updated messageId st s =
     s\<lparr>messages :=
         map (\<lambda>msg. if id_msg msg = messageId then msg\<lparr>status := st\<rparr> else msg) (messages s)\<rparr>"

subsection \<open>Local actions\<close>

text \<open>\<^verbatim>\<open>socketRef.current?.emit(...)\<close>: nothing happens while there is no socket.\<close>

definition emit :: "emit \<Rightarrow> chat_state \<Rightarrow> chat_state" where
  "emit ev s = (if socket s then s\<lparr>emitted := emitted s @ [(clock s, ev)]\<rparr> else s)"

definition handleSendMessage ::
  "crypto_js \<Rightarrow> js_string option \<Rightarrow> MessageType \<Rightarrow> js_string \<Rightarrow> chat_state
     \<Rightarrow> exn + chat_state" where
  "handleSendMessage lib env ty txt s =
     (case selectedRoom s of
        Some room \<Rightarrow>
          if trim txt \<noteq> [] then
            (case encryptMessage lib env txt of
               Inl e \<Rightarrow> Inl e
             | Inr encryptedContent \<Rightarrow>
                 Inr ((emit (Emit_chat_message (id_room room) encryptedContent ty) s)
                        \<lparr>newMessage := []\<rparr>))
          else Inr s
      | None \<Rightarrow> Inr s)"

text \<open>
  \<^verbatim>\<open>handleTyping\<close> emits \<^verbatim>\<open>typing\<close> with \<^verbatim>\<open>isTyping: true\<close>, cancels the pending
  timer and starts one of 2000 ms whose callback emits \<^verbatim>\<open>isTyping: false\<close> for the
  room selected now.
\<close>

definition handleTyping :: "chat_state \<Rightarrow> chat_state" where
  "handleTyping s =
     (case selectedRoom s of
        Some room \<Rightarrow>
          (emit (Emit_typing (id_room room) True) s)
            \<lparr>typingTimeout := Some (clock s + 2000, id_room room)\<rparr>
      | None \<Rightarrow> s)"

text \<open>
  Time passes until \<open>t\<close>: a pending timer that is due by then runs its callback at its
  own time, and is pending no more.
\<close>

definition elapse :: "nat \<Rightarrow> chat_state \<Rightarrow> chat_state" where
  "elapse t s =
     (case typingTimeout s of
        Some (due, rid) \<Rightarrow>
          if due \<le> t then
            (emit (Emit_typing rid False) (s\<lparr>clock := due, typingTimeout := None\<rparr>))
              \<lparr>clock := t\<rparr>
          else s\<lparr>clock := t\<rparr>
      | None \<Rightarrow> s\<lparr>clock := t\<rparr>)"

text \<open>A run of composing activity: at each of the times, in turn, the input changes.\<close>

definition activity :: "nat list \<Rightarrow> chat_state \<Rightarrow> chat_state" where
  "activity ts s = fold (\<lambda>t s. handleTyping (elapse t s)) ts s"

text \<open>The \<^verbatim>\<open>onClick\<close> of a room in the sidebar: the two setters it calls.\<close>

definition selectRoom :: "Room \<Rightarrow> chat_state \<Rightarrow> chat_state" where
  "selectRoom room s = s\<lparr>selectedRoom := Some room, isSidebarOpen := False\<rparr>"

text \<open>
  The effect, which depends on \<^verbatim>\<open>[session, selectedRoom]\<close> and so runs again after
  every change of the selected room. Its cleanup disconnects the old socket. When the
  session has a user id (a non-empty string), the effect stores a new socket in
  \<^verbatim>\<open>socketRef.current\<close>, registers the handlers, fetches \<^verbatim>\<open>/api/rooms\<close> into
  \<^verbatim>\<open>setRooms\<close> and the user's profile into \<^verbatim>\<open>setUserProfile\<close>. The two responses are
  parameters, \<open>None\<close> for a fetch that fails; the model stores them at once, before any
  other event.
\<close>

definition sessionEffect ::
  "Room list option \<Rightarrow> UserProfile option \<Rightarrow> chat_state \<Rightarrow> chat_state" where
  "sessionEffect fetchedRooms fetchedProfile s =
     (if sessionUserId s \<noteq> [] then
        s\<lparr>socket := True,
          rooms := (case fetchedRooms of Some rs \<Rightarrow> rs | None \<Rightarrow> rooms s),
          userProfile :=
            (case fetchedProfile of Some p \<Rightarrow> Some p | None \<Rightarrow> userProfile s)\<rparr>
      else s)"

text \<open>Switching to a room: the click, then the effect.\<close>

definition switchRoom ::
  "Room \<Rightarrow> Room list option \<Rightarrow> UserProfile option \<Rightarrow> chat_state \<Rightarrow> chat_state" where
  "switchRoom room fetchedRooms fetchedProfile s =
     sessionEffect fetchedRooms fetchedProfile (selectRoom room s)"

text \<open>
  The rendered list, \<^verbatim>\<open>filteredMessages()\<close>. \<^verbatim>\<open>String.prototype.toLowerCase\<close> is the
  host's; it is the parameter \<open>lower\<close>.
\<close>

definition filteredMessages :: "(js_string \<Rightarrow> js_string) \<Rightarrow> chat_state \<Rightarrow> Message list" where
  "filteredMessages lower s =
     (if searchQuery s = [] then messages s
      else filter
        (\<lambda>msg. includes_str (lower (content msg)) (lower (searchQuery s)) \<or>
               includes_str (lower (name (user msg))) (lower (searchQuery s)))
        (messages s))"

subsection \<open>Concrete values for scenarios\<close>

text \<open>The state after mounting, for a session whose user id is \<open>uid\<close>: the initial
  values of the \<^verbatim>\<open>useState\<close> cells, a socket, no timer, nothing emitted.\<close>

definition initial_state :: "js_string \<Rightarrow> chat_state" where
  "initial_state uid =
     \<lparr>rooms = [], selectedRoom = None, messages = [], newMessage = [], isSidebarOpen = False,
      isTyping = False, searchQuery = [], userProfile = None, sessionUserId = uid,
      socket = True,
      typingTimeout = None, clock = 0, emitted = []\<rparr>"

definition room_of :: "string \<Rightarrow> Room" where
  "room_of r = \<lparr>id_room = utf16 r, name_room = utf16 r, users = []\<rparr>"

definition wire_message :: "string \<Rightarrow> string \<Rightarrow> js_string \<Rightarrow> Message" where
  "wire_message i r c =
     \<lparr>id_msg = utf16 i, content = c, type = Text, createdAt = utf16 ''2024-01-01T00:00:00Z'',
      status = Sent, userId = utf16 ''userB'',
      user = \<lparr>name = utf16 ''B'', image = []\<rparr>, roomId = Some (utf16 r)\<rparr>"

text \<open>
  A stand-in for the library, to run scenarios on: the ciphertext is the key followed by
  the message, and decrypting under another key throws. The theorems below hold for
  every library; only the closed examples use this one. \<open>stub_encrypt env m\<close> is the
  ciphertext it gives for \<open>m\<close> when the configured key is \<open>env\<close>.
\<close>

definition stub_encrypt :: "js_string option \<Rightarrow> js_string \<Rightarrow> js_string" where
  "stub_encrypt env m = secretKey env @ m"

definition stub_crypto :: crypto_js where
  "stub_crypto =
     \<lparr>AES_encrypt = (\<lambda>m k. Inr (k @ m)),
      AES_decrypt_Utf8 = (\<lambda>c k.
        if take (length k) c = k then Inr (drop (length k) c)
        else Inl (Error ''Malformed UTF-8 data''))\<rparr>"

text \<open>
  CryptoJS turns the message into UTF-8 with \<^verbatim>\<open>encodeURIComponent\<close>, which throws on a
  string with an unpaired surrogate. \<open>strict_crypto\<close> is the stand-in with that check.
\<close>

fun wellFormed :: "js_string \<Rightarrow> bool" where
  "wellFormed [] = True"
| "wellFormed [c] = (\<not> (0xD800 \<le> c \<and> c \<le> 0xDFFF))"
| "wellFormed (c # d # cs) =
     (if 0xD800 \<le> c \<and> c \<le> 0xDBFF then 0xDC00 \<le> d \<and> d \<le> 0xDFFF \<and> wellFormed cs
      else \<not> (0xDC00 \<le> c \<and> c \<le> 0xDFFF) \<and> wellFormed (d # cs))"

definition strict_crypto :: crypto_js where
  "strict_crypto =
     \<lparr>AES_encrypt = (\<lambda>m k. if wellFormed m then Inr (k @ m) else Inl (Error ''URI malformed'')),
      AES_decrypt_Utf8 = AES_decrypt_Utf8 stub_crypto\<rparr>"

text \<open>A stand-in for the host's \<^verbatim>\<open>toLowerCase\<close> that lowers the letters A to Z only.\<close>

definition ascii_lower :: "js_string \<Rightarrow> js_string" where
  "ascii_lower = map (\<lambda>c. if 0x41 \<le> c \<and> c \<le> 0x5A then c + 0x20 else c)"

section \<open>Properties\<close>

subsection \<open>Auxiliary facts\<close>

lemma messages_on_message_status_updated:
  "messages (on_message_status_updated mid st s) =
     map (\<lambda>msg. if id_msg msg = mid then msg\<lparr>status := st\<rparr> else msg) (messages s)"
  by (simp add: on_message_status_updated_def)

lemma dropWhile_all: "(\<forall>x\<in>set (dropWhile P xs). P x) \<longleftrightarrow> (\<forall>x\<in>set xs. P x)"
  by (induction xs) auto

lemma trim_blank: "trim txt = [] \<longleftrightarrow> (\<forall>c\<in>set txt. isWhiteSpace c)"
  by (simp add: trim_def dropWhile_all)

lemma roomIsSelected_messages [simp]:
  "roomIsSelected (s\<lparr>messages := ms\<rparr>) rid = roomIsSelected s rid"
  by (simp add: roomIsSelected_def)

lemma on_chat_message_Inr:
  "roomIsSelected s (roomId msg) \<Longrightarrow> decryptMessage lib env (content msg) = Inr p \<Longrightarrow>
   on_chat_message lib env msg s = Inr (s\<lparr>messages := messages s @ [msg\<lparr>content := p\<rparr>]\<rparr>)"
  by (simp add: on_chat_message_def)

lemma decryptAll_returns:
  "(\<forall>m\<in>set msgs. \<not> isl (dec (content m))) \<Longrightarrow>
   decryptAll dec msgs = Inr (map (\<lambda>m. m\<lparr>content := projr (dec (content m))\<rparr>) msgs)"
  by (induction msgs) (auto split: sum.splits)

lemma decryptAll_throws:
  "isl (decryptAll dec msgs) \<longleftrightarrow> (\<exists>m\<in>set msgs. isl (dec (content m)))"
  by (induction msgs) (auto split: sum.splits)

lemma messages_emit [simp]: "messages (emit ev s) = messages s"
  by (simp add: emit_def)

lemma selectedRoom_emit [simp]: "selectedRoom (emit ev s) = selectedRoom s"
  by (simp add: emit_def)

lemma stub_encryptMessage:
  "encryptMessage stub_crypto env p = Inr (stub_encrypt env p)"
  by (simp add: encryptMessage_def stub_encrypt_def stub_crypto_def)

lemma stub_roundtrip:
  "decryptMessage stub_crypto env (stub_encrypt env p) = Inr p"
  by (simp add: decryptMessage_def stub_encrypt_def stub_crypto_def)

lemma strict_roundtrip:
  "decryptMessage strict_crypto env (stub_encrypt env p) = Inr p"
  by (simp add: decryptMessage_def stub_encrypt_def strict_crypto_def stub_crypto_def)

lemma messages_sessionEffect [simp]: "messages (sessionEffect fr fp s) = messages s"
  by (simp add: sessionEffect_def)

lemma selectedRoom_sessionEffect [simp]:
  "selectedRoom (sessionEffect fr fp s) = selectedRoom s"
  by (simp add: sessionEffect_def)

lemma tick_pending:
  assumes "selectedRoom s = Some room" "socket s"
    and "typingTimeout s = Some (due, rid)" "t < due"
  shows "handleTyping (elapse t s) =
     s\<lparr>clock := t, emitted := emitted s @ [(t, Emit_typing (id_room room) True)],
       typingTimeout := Some (t + 2000, id_room room)\<rparr>"
  using assms by (simp add: handleTyping_def elapse_def emit_def)

lemma tick_idle:
  assumes "selectedRoom s = Some room" "socket s" "typingTimeout s = None"
  shows "handleTyping (elapse t s) =
     s\<lparr>clock := t, emitted := emitted s @ [(t, Emit_typing (id_room room) True)],
       typingTimeout := Some (t + 2000, id_room room)\<rparr>"
  using assms by (simp add: handleTyping_def elapse_def emit_def)

lemma elapse_fires:
  assumes "typingTimeout s = Some (due, rid)" "due \<le> T" "socket s"
  shows "emitted (elapse T s) = emitted s @ [(due, Emit_typing rid False)]"
  using assms by (simp add: elapse_def emit_def)

lemma activity_pending:
  assumes "selectedRoom s = Some room" "socket s"
    and "typingTimeout s = Some (t0 + 2000, rid)"
    and "successively (\<lambda>a b. a \<le> b \<and> b < a + 2000) (t0 # ts)"
  shows "selectedRoom (activity ts s) = Some room \<and> socket (activity ts s) \<and>
     typingTimeout (activity ts s) = Some (last (t0 # ts) + 2000, if ts = [] then rid else id_room room) \<and>
     emitted (activity ts s) = emitted s @ map (\<lambda>t. (t, Emit_typing (id_room room) True)) ts"
  using assms
proof (induction ts arbitrary: s t0 rid)
  case Nil
  then show ?case by (simp add: activity_def)
next
  case (Cons t ts)
  let ?s1 = "handleTyping (elapse t s)"
  have lt: "t < t0 + 2000" and succ: "successively (\<lambda>a b. a \<le> b \<and> b < a + 2000) (t # ts)"
    using Cons.prems(4) by simp_all
  have s1: "?s1 = s\<lparr>clock := t, emitted := emitted s @ [(t, Emit_typing (id_room room) True)],
       typingTimeout := Some (t + 2000, id_room room)\<rparr>"
    using Cons.prems(1,2,3) lt by (rule tick_pending)
  have step: "activity (t # ts) s = activity ts ?s1"
    by (simp add: activity_def)
  have "selectedRoom ?s1 = Some room" "socket ?s1" "typingTimeout ?s1 = Some (t + 2000, id_room room)"
    using Cons.prems(1,2) by (simp_all add: s1)
  from Cons.IH [OF this succ] show ?case
    by (simp add: step s1)
qed

subsection \<open>The key both directions use\<close>

text \<open>
  \<^verbatim>\<open>encryptMessage\<close> and \<^verbatim>\<open>decryptMessage\<close> pick the key by the same expression, so
  whatever the library guarantees for one key carries over to the component; and an
  empty key is the fallback key, as an unset one is.
\<close>

lemma secretKey_fallback:
  "secretKey None = utf16 ''default-secret-key''"
  "secretKey (Some []) = secretKey None"
  by (simp_all add: secretKey_def)

lemma decryptMessage_empty_key:
  "decryptMessage lib (Some []) c = decryptMessage lib None c"
  by (simp add: decryptMessage_def secretKey_fallback)

lemma round_trip_of_library:
  assumes "\<And>m k. \<exists>c. AES_encrypt lib m k = Inr c \<and> AES_decrypt_Utf8 lib c k = Inr m"
  shows "\<exists>c. encryptMessage lib env p = Inr c \<and> decryptMessage lib env c = Inr p"
  by (simp add: decryptMessage_def encryptMessage_def assms)

subsection \<open>Status updates\<close>

text \<open>
  C1 (as amended). A \<^verbatim>\<open>message status updated\<close> event overwrites the status of every
  stored message with that id, whatever the status was: after any sequence of such
  events, a message that some event named carries the status of the last event that
  named it, and a message that no event named is unchanged. No order on the statuses
  is consulted.
\<close>

theorem status_update_overwrites:
  "messages (fold (\<lambda>(mid, st). on_message_status_updated mid st) evs s) =
     map (\<lambda>msg. if filter (\<lambda>e. fst e = id_msg msg) evs = [] then msg
                 else msg\<lparr>status := snd (last (filter (\<lambda>e. fst e = id_msg msg) evs))\<rparr>)
       (messages s)"
proof (induction evs rule: rev_induct)
  case Nil
  then show ?case by simp
next
  case (snoc e evs)
  obtain mid st where e: "e = (mid, st)" by (cases e)
  show ?case
    by (simp add: e snoc messages_on_message_status_updated)
qed

text \<open>
  C1 as stated fails: a message with status \<open>Sent\<close> that receives \<open>Delivered\<close> and then
  \<open>Sent\<close> ends with status \<open>Sent\<close>, not \<open>Delivered\<close>.
\<close>

theorem status_update_regresses:
  "map status (messages
     (on_message_status_updated (utf16 ''m1'') Sent
       (on_message_status_updated (utf16 ''m1'') Delivered
         ((initial_state (utf16 ''userA''))\<lparr>messages := [wire_message ''m1'' ''r1'' []]\<rparr>))))
   = [Sent]"
  by (simp add: on_message_status_updated_def initial_state_def wire_message_def)

subsection \<open>Typing presence of the others\<close>

text \<open>
  C9. A \<^verbatim>\<open>user typing\<close> event that carries the local user's id leaves the state as it
  is; one that carries another id sets the typing flag to the event's value and changes
  nothing else. So the flag changes only on an event of another user.
\<close>

theorem user_typing_ignores_self:
  "(uid = sessionUserId s \<longrightarrow> on_user_typing uid flag s = s) \<and>
   (uid \<noteq> sessionUserId s \<longrightarrow> on_user_typing uid flag s = s\<lparr>isTyping := flag\<rparr>) \<and>
   (isTyping (on_user_typing uid flag s) \<noteq> isTyping s \<longrightarrow> uid \<noteq> sessionUserId s)"
  by (auto simp: on_user_typing_def)

theorem user_typing_ignores_self_witness:
  "on_user_typing (utf16 ''userA'') True (initial_state (utf16 ''userA'')) =
     initial_state (utf16 ''userA'') \<and>
   isTyping (on_user_typing (utf16 ''userB'') True (initial_state (utf16 ''userA'')))"
  using user_typing_ignores_self [of "utf16 ''userA''" "initial_state (utf16 ''userA'')" True]
    user_typing_ignores_self [of "utf16 ''userB''" "initial_state (utf16 ''userA'')" True]
  by (simp add: initial_state_def utf16_def)

subsection \<open>Sending\<close>

text \<open>
  C10. \<^verbatim>\<open>handleSendMessage\<close> with a content that is empty or consists of white space
  only, or with no room selected, changes nothing: no event is emitted, the messages
  and the draft stay as they were.
\<close>

theorem handleSendMessage_blank_noop:
  assumes "(\<forall>c\<in>set txt. isWhiteSpace c) \<or> selectedRoom s = None"
  shows "handleSendMessage lib env ty txt s = Inr s"
  using assms by (auto simp: handleSendMessage_def trim_blank split: option.splits)

theorem handleSendMessage_blank_noop_witness:
  "list_all isWhiteSpace (utf16 '' '') \<and>
   handleSendMessage stub_crypto None Text (utf16 '' '')
       ((selectRoom (room_of ''r1'') (initial_state (utf16 ''userA'')))
          \<lparr>newMessage := utf16 '' ''\<rparr>)
     = Inr ((selectRoom (room_of ''r1'') (initial_state (utf16 ''userA'')))
          \<lparr>newMessage := utf16 '' ''\<rparr>) \<and>
   handleSendMessage stub_crypto None Text (utf16 ''hello'')
       ((initial_state (utf16 ''userA''))\<lparr>newMessage := utf16 ''hello''\<rparr>)
     = Inr ((initial_state (utf16 ''userA''))\<lparr>newMessage := utf16 ''hello''\<rparr>)"
proof -
  have blank: "\<forall>c\<in>set (utf16 '' ''). isWhiteSpace c"
    by (simp add: utf16_def isWhiteSpace_def)
  have none: "selectedRoom ((initial_state (utf16 ''userA''))\<lparr>newMessage := utf16 ''hello''\<rparr>) = None"
    by (simp add: initial_state_def)
  show ?thesis
    using blank handleSendMessage_blank_noop [OF disjI1 [OF blank]]
      handleSendMessage_blank_noop [OF disjI2 [OF none]]
    by (simp add: list_all_iff)
qed

subsection \<open>Appending an inbound message\<close>

text \<open>
  C3 (as amended). A \<^verbatim>\<open>chat message\<close> event for the selected room whose content
  decrypts adds one entry at the end of the sequence, whether or not an entry with that
  id is already there: the same message received twice is stored twice, and the number
  of entries with its id grows by two.
\<close>

theorem chat_message_appends_every_time:
  assumes sel: "roomIsSelected s (roomId msg)"
    and dec: "decryptMessage lib env (content msg) = Inr p"
  shows "on_chat_message lib env msg s =
           Inr (s\<lparr>messages := messages s @ [msg\<lparr>content := p\<rparr>]\<rparr>) \<and>
         on_chat_message lib env msg (s\<lparr>messages := messages s @ [msg\<lparr>content := p\<rparr>]\<rparr>) =
           Inr (s\<lparr>messages := messages s @ [msg\<lparr>content := p\<rparr>, msg\<lparr>content := p\<rparr>]\<rparr>) \<and>
         length (filter (\<lambda>m. id_msg m = id_msg msg)
            (messages s @ [msg\<lparr>content := p\<rparr>, msg\<lparr>content := p\<rparr>])) =
           length (filter (\<lambda>m. id_msg m = id_msg msg) (messages s)) + 2"
  using sel dec by (simp add: on_chat_message_Inr)

theorem chat_message_appends_every_time_witness:
  "roomIsSelected (selectRoom (room_of ''r1'') (initial_state (utf16 ''userA'')))
     (roomId (wire_message ''m1'' ''r1'' (stub_encrypt None (utf16 ''hello'')))) \<and>
   on_chat_message stub_crypto None
     (wire_message ''m1'' ''r1'' (stub_encrypt None (utf16 ''hello'')))
     (selectRoom (room_of ''r1'') (initial_state (utf16 ''userA''))) =
   Inr ((selectRoom (room_of ''r1'') (initial_state (utf16 ''userA'')))
     \<lparr>messages := [wire_message ''m1'' ''r1'' (utf16 ''hello'')]\<rparr>)"
proof -
  let ?s = "selectRoom (room_of ''r1'') (initial_state (utf16 ''userA''))"
  let ?m = "wire_message ''m1'' ''r1'' (stub_encrypt None (utf16 ''hello''))"
  have sel: "roomIsSelected ?s (roomId ?m)"
    by (simp add: roomIsSelected_def selectRoom_def room_of_def wire_message_def)
  have dec: "decryptMessage stub_crypto None (content ?m) = Inr (utf16 ''hello'')"
    by (simp add: wire_message_def stub_roundtrip)
  show ?thesis
    using sel chat_message_appends_every_time [OF sel dec]
    by (simp add: wire_message_def selectRoom_def initial_state_def)
qed

text \<open>
  C3 as stated fails: the same message, received twice while its room is selected,
  leaves two entries with its id in the sequence.
\<close>

theorem chat_message_twice_two_entries:
  "on_chat_message stub_crypto None
     (wire_message ''m1'' ''r1'' (stub_encrypt None (utf16 ''hello'')))
     (selectRoom (room_of ''r1'') (initial_state (utf16 ''userA''))) =
   Inr ((selectRoom (room_of ''r1'') (initial_state (utf16 ''userA'')))
     \<lparr>messages := [wire_message ''m1'' ''r1'' (utf16 ''hello'')]\<rparr>) \<and>
   on_chat_message stub_crypto None
     (wire_message ''m1'' ''r1'' (stub_encrypt None (utf16 ''hello'')))
     ((selectRoom (room_of ''r1'') (initial_state (utf16 ''userA'')))
       \<lparr>messages := [wire_message ''m1'' ''r1'' (utf16 ''hello'')]\<rparr>) =
   Inr ((selectRoom (room_of ''r1'') (initial_state (utf16 ''userA'')))
     \<lparr>messages := [wire_message ''m1'' ''r1'' (utf16 ''hello''),
                    wire_message ''m1'' ''r1'' (utf16 ''hello'')]\<rparr>)"
  by (simp add: on_chat_message_def roomIsSelected_def selectRoom_def room_of_def
      wire_message_def initial_state_def stub_roundtrip)

subsection \<open>Sending and the message sequence\<close>

text \<open>
  C4 (as amended). Sending a non-blank content with a room selected first encrypts it.
  When the encryption returns, the component emits one \<^verbatim>\<open>chat message\<close> event with the
  room id, the cipher-text and the kind (through the socket, when there is one) and
  clears the draft; when the encryption throws, the handler throws, so nothing is
  emitted and the draft is kept. In neither case is a provisional message made or the
  message sequence changed: a server message for the selected room that arrives after a
  send is the only new entry, and the sequence grows by that one message.
\<close>

theorem handleSendMessage_no_local_append:
  assumes room: "selectedRoom s = Some room"
    and nonblank: "trim txt \<noteq> []"
    and sel: "roomIsSelected s (roomId msg)"
    and dec: "decryptMessage lib env (content msg) = Inr p"
  shows "(\<forall>c. encryptMessage lib env txt = Inr c \<longrightarrow>
            (\<exists>s1. handleSendMessage lib env ty txt s = Inr s1 \<and>
               messages s1 = messages s \<and>
               newMessage s1 = [] \<and>
               emitted s1 =
                 (if socket s
                  then emitted s @ [(clock s, Emit_chat_message (id_room room) c ty)]
                  else emitted s) \<and>
               (\<exists>s2. on_chat_message lib env msg s1 = Inr s2 \<and>
                     messages s2 = messages s @ [msg\<lparr>content := p\<rparr>]))) \<and>
         (\<forall>e. encryptMessage lib env txt = Inl e \<longrightarrow>
            handleSendMessage lib env ty txt s = Inl e)"
proof (intro conjI allI impI)
  fix c
  assume enc: "encryptMessage lib env txt = Inr c"
  let ?s1 = "(emit (Emit_chat_message (id_room room) c ty) s)\<lparr>newMessage := []\<rparr>"
  have s1: "handleSendMessage lib env ty txt s = Inr ?s1"
    using room nonblank enc by (simp add: handleSendMessage_def)
  have msgs: "messages ?s1 = messages s"
    by simp
  have sel1: "roomIsSelected ?s1 (roomId msg)"
    using sel by (simp add: roomIsSelected_def)
  have "on_chat_message lib env msg ?s1 =
      Inr (?s1\<lparr>messages := messages ?s1 @ [msg\<lparr>content := p\<rparr>]\<rparr>)"
    using sel1 dec by (rule on_chat_message_Inr)
  then have "\<exists>s2. on_chat_message lib env msg ?s1 = Inr s2 \<and>
      messages s2 = messages s @ [msg\<lparr>content := p\<rparr>]"
    by simp
  moreover have "newMessage ?s1 = []"
    by simp
  moreover have "emitted ?s1 =
      (if socket s
       then emitted s @ [(clock s, Emit_chat_message (id_room room) c ty)]
       else emitted s)"
    by (simp add: emit_def)
  ultimately show "\<exists>s1. handleSendMessage lib env ty txt s = Inr s1 \<and>
      messages s1 = messages s \<and>
      newMessage s1 = [] \<and>
      emitted s1 =
        (if socket s
         then emitted s @ [(clock s, Emit_chat_message (id_room room) c ty)]
         else emitted s) \<and>
      (\<exists>s2. on_chat_message lib env msg s1 = Inr s2 \<and>
            messages s2 = messages s @ [msg\<lparr>content := p\<rparr>])"
    using s1 msgs by blast
next
  fix e
  assume "encryptMessage lib env txt = Inl e"
  then show "handleSendMessage lib env ty txt s = Inl e"
    using room nonblank by (simp add: handleSendMessage_def)
qed

theorem handleSendMessage_no_local_append_witness:
  "selectedRoom (selectRoom (room_of ''r1'') (initial_state (utf16 ''userA''))) =
     Some (room_of ''r1'') \<and>
   trim (utf16 ''hello'') \<noteq> [] \<and>
   (\<exists>s1. handleSendMessage stub_crypto None Text (utf16 ''hello'')
           (selectRoom (room_of ''r1'') (initial_state (utf16 ''userA''))) = Inr s1 \<and>
         messages s1 = [] \<and>
         newMessage s1 = [] \<and>
         emitted s1 =
           [(0, Emit_chat_message (utf16 ''r1'') (stub_encrypt None (utf16 ''hello'')) Text)]) \<and>
   trim [0xD800] \<noteq> [] \<and>
   handleSendMessage strict_crypto None Text [0xD800]
     (selectRoom (room_of ''r1'') (initial_state (utf16 ''userA''))) =
   Inl (Error ''URI malformed'')"
proof -
  let ?s = "selectRoom (room_of ''r1'') (initial_state (utf16 ''userA''))"
  let ?m = "wire_message ''m2'' ''r1'' (stub_encrypt None (utf16 ''hello''))"
  have room: "selectedRoom ?s = Some (room_of ''r1'')"
    by (simp add: selectRoom_def)
  have nonblank: "trim (utf16 ''hello'') \<noteq> []"
    by (simp add: trim_def utf16_def isWhiteSpace_def)
  have nonblank': "trim [0xD800] \<noteq> []"
    by (simp add: trim_def isWhiteSpace_def)
  have enc: "encryptMessage stub_crypto None (utf16 ''hello'') =
      Inr (stub_encrypt None (utf16 ''hello''))"
    by (rule stub_encryptMessage)
  have enc': "encryptMessage strict_crypto None [0xD800] = Inl (Error ''URI malformed'')"
    by (simp add: encryptMessage_def strict_crypto_def)
  have sel: "roomIsSelected ?s (roomId ?m)"
    by (simp add: roomIsSelected_def selectRoom_def room_of_def wire_message_def)
  have dec: "decryptMessage stub_crypto None (content ?m) = Inr (utf16 ''hello'')"
    by (simp add: wire_message_def stub_roundtrip)
  have dec': "decryptMessage strict_crypto None (content ?m) = Inr (utf16 ''hello'')"
    by (simp add: wire_message_def strict_roundtrip)
  have st: "messages ?s = []" "socket ?s" "emitted ?s = []" "clock ?s = 0"
    "id_room (room_of ''r1'') = utf16 ''r1''"
    by (simp_all add: selectRoom_def initial_state_def room_of_def)
  show ?thesis
    using room nonblank nonblank' enc enc'
      handleSendMessage_no_local_append [OF room nonblank sel dec, of Text]
      handleSendMessage_no_local_append [OF room nonblank' sel dec', of Text]
    by (auto simp: st)
qed

text \<open>
  C4 as stated fails: after sending \<open>hello\<close> in room \<open>r1\<close> the sequence is still
  empty, and after the server's message \<open>m2\<close> with the same content has arrived it
  holds that one message, not two.
\<close>

theorem send_then_receive_one_entry:
  "map_sum id messages
     (handleSendMessage stub_crypto None Text (utf16 ''hello'')
        (selectRoom (room_of ''r1'') (initial_state (utf16 ''userA'')))) = Inr [] \<and>
   map_sum id messages
     (case handleSendMessage stub_crypto None Text (utf16 ''hello'')
             (selectRoom (room_of ''r1'') (initial_state (utf16 ''userA''))) of
        Inl e \<Rightarrow> Inl e
      | Inr s1 \<Rightarrow>
          on_chat_message stub_crypto None
            (wire_message ''m2'' ''r1'' (stub_encrypt None (utf16 ''hello''))) s1) =
   Inr [wire_message ''m2'' ''r1'' (utf16 ''hello'')]"
proof -
  have nonblank: "trim (utf16 ''hello'') \<noteq> []"
    by (simp add: trim_def utf16_def isWhiteSpace_def)
  show ?thesis
    using nonblank
    by (simp add: handleSendMessage_def on_chat_message_def roomIsSelected_def selectRoom_def
        room_of_def wire_message_def initial_state_def stub_roundtrip stub_encryptMessage emit_def)
qed

subsection \<open>Switching rooms\<close>

text \<open>
  C5 (as amended). Switching from room A to room B makes B the selected room and leaves
  the one message sequence as it is: the component keeps no sequence per room. So
  switching to B and back to A, with no inbound event in between, leaves the sequence
  unchanged, and while B is active the rendered list is still the list shown before the
  switch. Inbound events for B then act on that sequence: a \<^verbatim>\<open>chat message\<close> for B
  whose content decrypts is appended after the messages already there, and an
  \<^verbatim>\<open>initial messages\<close> event for B whose contents decrypt replaces it.
\<close>

theorem switchRoom_keeps_messages:
  assumes rid: "roomId msg = Some (id_room b)"
    and dec: "decryptMessage lib env (content msg) = Inr p"
    and decs: "\<forall>m\<in>set msgs. \<not> isl (decryptMessage lib env (content m))"
  shows "selectedRoom (switchRoom b fr fp s) = Some b \<and>
         messages (switchRoom b fr fp s) = messages s \<and>
         filteredMessages lower (switchRoom b fr fp s) = filteredMessages lower s \<and>
         searchQuery (switchRoom b fr fp s) = searchQuery s \<and>
         newMessage (switchRoom b fr fp s) = newMessage s \<and>
         typingTimeout (switchRoom b fr fp s) = typingTimeout s \<and>
         emitted (switchRoom b fr fp s) = emitted s \<and>
         selectedRoom (switchRoom a fr' fp' (switchRoom b fr fp s)) = Some a \<and>
         messages (switchRoom a fr' fp' (switchRoom b fr fp s)) = messages s \<and>
         on_chat_message lib env msg (switchRoom b fr fp s) =
           Inr ((switchRoom b fr fp s)\<lparr>messages := messages s @ [msg\<lparr>content := p\<rparr>]\<rparr>) \<and>
         on_initial_messages lib env (Some (id_room b)) msgs (switchRoom b fr fp s) =
           Inr ((switchRoom b fr fp s)\<lparr>messages :=
             map (\<lambda>m. m\<lparr>content := projr (decryptMessage lib env (content m))\<rparr>) msgs\<rparr>)"
proof -
  let ?s1 = "switchRoom b fr fp s"
  have sel: "selectedRoom ?s1 = Some b"
    by (simp add: switchRoom_def selectRoom_def)
  have msgs: "messages ?s1 = messages s"
    by (simp add: switchRoom_def selectRoom_def)
  have frame: "searchQuery ?s1 = searchQuery s" "newMessage ?s1 = newMessage s"
    "typingTimeout ?s1 = typingTimeout s" "emitted ?s1 = emitted s"
    by (simp_all add: switchRoom_def selectRoom_def sessionEffect_def)
  have view: "filteredMessages lower ?s1 = filteredMessages lower s"
    by (simp add: filteredMessages_def msgs frame)
  have again: "selectedRoom (switchRoom a fr' fp' ?s1) = Some a"
    "messages (switchRoom a fr' fp' ?s1) = messages s"
    by (simp_all add: switchRoom_def selectRoom_def)
  have open_b: "roomIsSelected ?s1 (Some (id_room b))"
    by (simp add: roomIsSelected_def sel)
  then have "roomIsSelected ?s1 (roomId msg)"
    by (simp add: rid)
  then have "on_chat_message lib env msg ?s1 =
      Inr (?s1\<lparr>messages := messages ?s1 @ [msg\<lparr>content := p\<rparr>]\<rparr>)"
    using dec by (rule on_chat_message_Inr)
  then have append: "on_chat_message lib env msg ?s1 =
      Inr (?s1\<lparr>messages := messages s @ [msg\<lparr>content := p\<rparr>]\<rparr>)"
    by (simp add: msgs)
  have "decryptAll (decryptMessage lib env) msgs =
      Inr (map (\<lambda>m. m\<lparr>content := projr (decryptMessage lib env (content m))\<rparr>) msgs)"
    using decs by (rule decryptAll_returns)
  then have seed: "on_initial_messages lib env (Some (id_room b)) msgs ?s1 =
      Inr (?s1\<lparr>messages :=
        map (\<lambda>m. m\<lparr>content := projr (decryptMessage lib env (content m))\<rparr>) msgs\<rparr>)"
    using open_b by (simp add: on_initial_messages_def)
  show ?thesis
    using sel msgs view frame again append seed by simp
qed

theorem switchRoom_keeps_messages_witness:
  "roomId (wire_message ''m2'' ''r2'' (stub_encrypt None (utf16 ''hi''))) =
     Some (id_room (room_of ''r2'')) \<and>
   list_all (\<lambda>m. \<not> isl (decryptMessage stub_crypto None (content m)))
     [wire_message ''m3'' ''r2'' (stub_encrypt None (utf16 ''one''))] \<and>
   messages (switchRoom (room_of ''r2'') (Some [room_of ''r1'', room_of ''r2'']) None
     ((selectRoom (room_of ''r1'') (initial_state (utf16 ''userA'')))
        \<lparr>messages := [wire_message ''m1'' ''r1'' (utf16 ''hello'')]\<rparr>)) =
     [wire_message ''m1'' ''r1'' (utf16 ''hello'')] \<and>
   map_sum id (map roomId \<circ> messages)
     (on_chat_message stub_crypto None
        (wire_message ''m2'' ''r2'' (stub_encrypt None (utf16 ''hi'')))
        (switchRoom (room_of ''r2'') (Some [room_of ''r1'', room_of ''r2'']) None
          ((selectRoom (room_of ''r1'') (initial_state (utf16 ''userA'')))
             \<lparr>messages := [wire_message ''m1'' ''r1'' (utf16 ''hello'')]\<rparr>))) =
     Inr [Some (utf16 ''r1''), Some (utf16 ''r2'')] \<and>
   map_sum id (map roomId \<circ> messages)
     (on_initial_messages stub_crypto None (Some (id_room (room_of ''r2'')))
        [wire_message ''m3'' ''r2'' (stub_encrypt None (utf16 ''one''))]
        (switchRoom (room_of ''r2'') (Some [room_of ''r1'', room_of ''r2'']) None
          ((selectRoom (room_of ''r1'') (initial_state (utf16 ''userA'')))
             \<lparr>messages := [wire_message ''m1'' ''r1'' (utf16 ''hello'')]\<rparr>))) =
     Inr [Some (utf16 ''r2'')]"
proof -
  let ?sA = "(selectRoom (room_of ''r1'') (initial_state (utf16 ''userA'')))
        \<lparr>messages := [wire_message ''m1'' ''r1'' (utf16 ''hello'')]\<rparr>"
  let ?m2 = "wire_message ''m2'' ''r2'' (stub_encrypt None (utf16 ''hi''))"
  let ?m3 = "wire_message ''m3'' ''r2'' (stub_encrypt None (utf16 ''one''))"
  have rid: "roomId ?m2 = Some (id_room (room_of ''r2''))"
    by (simp add: wire_message_def room_of_def)
  have dec: "decryptMessage stub_crypto None (content ?m2) = Inr (utf16 ''hi'')"
    by (simp add: wire_message_def stub_roundtrip)
  have decs: "\<forall>m\<in>set [?m3]. \<not> isl (decryptMessage stub_crypto None (content m))"
    by (simp add: wire_message_def stub_roundtrip)
  have old: "messages ?sA = [wire_message ''m1'' ''r1'' (utf16 ''hello'')]"
    by simp
  have rooms: "map roomId (messages ?sA) = [Some (utf16 ''r1'')]"
    "roomId (?m2\<lparr>content := utf16 ''hi''\<rparr>) = Some (utf16 ''r2'')"
    "roomId (?m3\<lparr>content := projr (decryptMessage stub_crypto None (content ?m3))\<rparr>) =
       Some (utf16 ''r2'')"
    by (simp_all add: wire_message_def)
  show ?thesis
    using rid decs rooms
      switchRoom_keeps_messages [OF rid dec decs,
        of "Some [room_of ''r1'', room_of ''r2'']" None ?sA]
    by (simp add: old list_all_iff)
qed

text \<open>
  C5 as stated fails: with room \<open>r1\<close> selected and a message of \<open>r1\<close> in the sequence,
  switching to \<open>r2\<close> leaves that message in the rendered list of \<open>r2\<close>.
\<close>

theorem room_switch_shows_previous_room:
  "map_option id_room (selectedRoom
     (switchRoom (room_of ''r2'') (Some [room_of ''r1'', room_of ''r2'']) None
       ((selectRoom (room_of ''r1'') (initial_state (utf16 ''userA'')))
          \<lparr>messages := [wire_message ''m1'' ''r1'' (utf16 ''hello'')]\<rparr>))) =
     Some (utf16 ''r2'') \<and>
   map roomId (filteredMessages ascii_lower
     (switchRoom (room_of ''r2'') (Some [room_of ''r1'', room_of ''r2'']) None
       ((selectRoom (room_of ''r1'') (initial_state (utf16 ''userA'')))
          \<lparr>messages := [wire_message ''m1'' ''r1'' (utf16 ''hello'')]\<rparr>))) =
     [Some (utf16 ''r1'')] \<and>
   utf16 ''r1'' \<noteq> utf16 ''r2''"
  by (simp add: switchRoom_def sessionEffect_def selectRoom_def filteredMessages_def
      initial_state_def room_of_def wire_message_def utf16_def)

subsection \<open>Seeding from the initial messages\<close>

text \<open>
  C7 (as amended). An \<^verbatim>\<open>initial messages\<close> event for the selected room, every content
  of which decrypts, replaces the sequence by the delivered list with each content
  replaced by what \<^verbatim>\<open>decryptMessage\<close> returned: same length, same order. There is no
  marker for a content that cannot be decrypted: when a decryption throws, the handler
  throws and seeds nothing.
\<close>

theorem initial_messages_seed:
  assumes sel: "roomIsSelected s rid"
  shows "((\<forall>m\<in>set msgs. \<not> isl (decryptMessage lib env (content m))) \<longrightarrow>
            on_initial_messages lib env rid msgs s =
              Inr (s\<lparr>messages :=
                map (\<lambda>m. m\<lparr>content := projr (decryptMessage lib env (content m))\<rparr>) msgs\<rparr>)) \<and>
         ((\<exists>m\<in>set msgs. isl (decryptMessage lib env (content m))) \<longrightarrow>
            isl (on_initial_messages lib env rid msgs s))"
proof (intro conjI impI)
  assume "\<forall>m\<in>set msgs. \<not> isl (decryptMessage lib env (content m))"
  then have "decryptAll (decryptMessage lib env) msgs =
      Inr (map (\<lambda>m. m\<lparr>content := projr (decryptMessage lib env (content m))\<rparr>) msgs)"
    by (rule decryptAll_returns)
  then show "on_initial_messages lib env rid msgs s =
      Inr (s\<lparr>messages :=
        map (\<lambda>m. m\<lparr>content := projr (decryptMessage lib env (content m))\<rparr>) msgs\<rparr>)"
    using sel by (simp add: on_initial_messages_def)
next
  assume "\<exists>m\<in>set msgs. isl (decryptMessage lib env (content m))"
  then have "isl (decryptAll (decryptMessage lib env) msgs)"
    by (simp add: decryptAll_throws)
  then show "isl (on_initial_messages lib env rid msgs s)"
    using sel by (auto simp: on_initial_messages_def split: sum.splits)
qed

theorem initial_messages_seed_witness:
  "roomIsSelected (selectRoom (room_of ''r1'') (initial_state (utf16 ''userA'')))
     (Some (utf16 ''r1'')) \<and>
   on_initial_messages stub_crypto None (Some (utf16 ''r1''))
     [wire_message ''m1'' ''r1'' (stub_encrypt None (utf16 ''one'')),
      wire_message ''m2'' ''r1'' (stub_encrypt None (utf16 ''two''))]
     (selectRoom (room_of ''r1'') (initial_state (utf16 ''userA''))) =
   Inr ((selectRoom (room_of ''r1'') (initial_state (utf16 ''userA'')))
     \<lparr>messages := [wire_message ''m1'' ''r1'' (utf16 ''one''),
                    wire_message ''m2'' ''r1'' (utf16 ''two'')]\<rparr>)"
proof -
  let ?s = "selectRoom (room_of ''r1'') (initial_state (utf16 ''userA''))"
  have sel: "roomIsSelected ?s (Some (utf16 ''r1''))"
    by (simp add: roomIsSelected_def selectRoom_def room_of_def)
  show ?thesis
    using sel initial_messages_seed [OF sel, of
        "[wire_message ''m1'' ''r1'' (stub_encrypt None (utf16 ''one'')),
          wire_message ''m2'' ''r1'' (stub_encrypt None (utf16 ''two''))]"
        stub_crypto None]
    by (simp add: wire_message_def stub_roundtrip)
qed

text \<open>
  C7 as stated fails: when the second of two delivered messages was encrypted under
  another key and its decryption throws, the handler throws; neither message is
  stored, with or without a marker.
\<close>

theorem initial_messages_throw_seeds_nothing:
  "on_initial_messages stub_crypto None (Some (utf16 ''r1''))
     [wire_message ''m1'' ''r1'' (stub_encrypt None (utf16 ''one'')),
      wire_message ''m2'' ''r1''
        (stub_encrypt (Some (utf16 ''other-key'')) (utf16 ''two''))]
     (selectRoom (room_of ''r1'') (initial_state (utf16 ''userA''))) =
   Inl (Error ''Malformed UTF-8 data'')"
  by (simp add: on_initial_messages_def roomIsSelected_def selectRoom_def room_of_def
      wire_message_def decryptMessage_def stub_encrypt_def stub_crypto_def secretKey_def
      utf16_def)

subsection \<open>Typing presence of the local user\<close>

text \<open>
  C2 (as amended). With a room selected, a socket and no timer pending, a run of
  activity in which each tick comes less than the timer's 2000 ms after the one before
  emits \<^verbatim>\<open>typing\<close> with \<open>True\<close> at every tick, and \<^verbatim>\<open>typing\<close> with \<open>False\<close> once,
  2000 ms after the last tick. Every tick restarts the timer; no tick is silent.
\<close>

theorem typing_true_on_every_tick:
  assumes room: "selectedRoom s = Some room" and sock: "socket s"
    and idle: "typingTimeout s = None"
    and ne: "ts \<noteq> []"
    and close: "successively (\<lambda>a b. a \<le> b \<and> b < a + 2000) ts"
    and quiet: "last ts + 2000 \<le> T"
  shows "emitted (elapse T (activity ts s)) =
     emitted s @ map (\<lambda>t. (t, Emit_typing (id_room room) True)) ts @
       [(last ts + 2000, Emit_typing (id_room room) False)]"
proof -
  obtain t0 ts' where ts: "ts = t0 # ts'"
    using ne by (cases ts) auto
  let ?s1 = "handleTyping (elapse t0 s)"
  have s1: "?s1 = s\<lparr>clock := t0, emitted := emitted s @ [(t0, Emit_typing (id_room room) True)],
       typingTimeout := Some (t0 + 2000, id_room room)\<rparr>"
    using room sock idle by (rule tick_idle)
  have step: "activity ts s = activity ts' ?s1"
    by (simp add: ts activity_def)
  have close': "successively (\<lambda>a b. a \<le> b \<and> b < a + 2000) (t0 # ts')"
    using close by (simp add: ts)
  have "selectedRoom ?s1 = Some room" "socket ?s1"
    "typingTimeout ?s1 = Some (t0 + 2000, id_room room)"
    using room sock by (simp_all add: s1)
  from activity_pending [OF this close']
  have sock2: "socket (activity ts s)"
    and timer2: "typingTimeout (activity ts s) = Some (last ts + 2000, id_room room)"
    and out2: "emitted (activity ts s) =
      emitted ?s1 @ map (\<lambda>t. (t, Emit_typing (id_room room) True)) ts'"
    unfolding step by (simp_all add: ts)
  have "emitted (elapse T (activity ts s)) =
      emitted (activity ts s) @ [(last ts + 2000, Emit_typing (id_room room) False)]"
    using timer2 quiet sock2 by (rule elapse_fires)
  then show ?thesis
    unfolding out2 by (simp add: s1 ts)
qed

theorem typing_true_on_every_tick_witness:
  "selectedRoom (selectRoom (room_of ''r1'') (initial_state (utf16 ''userA''))) =
     Some (room_of ''r1'') \<and>
   successively (\<lambda>a b. a \<le> b \<and> b < a + 2000) [0, 500, 1500 :: nat] \<and>
   emitted (elapse 9000 (activity [0, 500, 1500]
     (selectRoom (room_of ''r1'') (initial_state (utf16 ''userA''))))) =
   [(0, Emit_typing (utf16 ''r1'') True), (500, Emit_typing (utf16 ''r1'') True),
    (1500, Emit_typing (utf16 ''r1'') True), (3500, Emit_typing (utf16 ''r1'') False)]"
proof -
  let ?s = "selectRoom (room_of ''r1'') (initial_state (utf16 ''userA''))"
  have room: "selectedRoom ?s = Some (room_of ''r1'')"
    by (simp add: selectRoom_def)
  have sock: "socket ?s" and idle: "typingTimeout ?s = None"
    by (simp_all add: selectRoom_def initial_state_def)
  have ne: "[0, 500, 1500 :: nat] \<noteq> []"
    by simp
  have close: "successively (\<lambda>a b. a \<le> b \<and> b < a + 2000) [0, 500, 1500 :: nat]"
    by simp
  have quiet: "last [0, 500, 1500 :: nat] + 2000 \<le> 9000"
    by simp
  show ?thesis
    using room close typing_true_on_every_tick [OF room sock idle ne close quiet]
    by (simp add: selectRoom_def initial_state_def room_of_def)
qed

text \<open>
  C2 as stated fails: ticks at 0, 1000 and 2000 ms, half a timer apart, emit
  \<^verbatim>\<open>typing\<close> with \<open>True\<close> three times, not once; \<open>False\<close> follows once, at 4000 ms.
\<close>

theorem three_ticks_three_typing_true:
  "emitted (elapse 4000 (activity [0, 1000, 2000]
     (selectRoom (room_of ''r1'') (initial_state (utf16 ''userA''))))) =
   [(0, Emit_typing (utf16 ''r1'') True), (1000, Emit_typing (utf16 ''r1'') True),
    (2000, Emit_typing (utf16 ''r1'') True), (4000, Emit_typing (utf16 ''r1'') False)]"
  by (simp add: activity_def elapse_def handleTyping_def emit_def selectRoom_def
      initial_state_def room_of_def)

end
